theory Spec2Isabelle
  imports Complex_Main "HOL-Library.List_Lexorder" "HOL-Library.Char_ord" "HOL-Library.Sublist"
begin

section \<open>Boundary-condition identifiers and records (bound\_cond.hpp)\<close>

subsection \<open>The enumeration \<open>BCType\<close>\<close>

text \<open>
  \<^verbatim>\<open>enum BCType { Dirichlet, Neumann, Robin, Generic, Other };\<close>
  An unscoped enumeration: the enumerators have the values 0, 1, 2, 3, 4 in the order of
  their declaration, and \<^verbatim>\<open>std::less<BCType>\<close> compares those values.
\<close>

datatype BCType = Dirichlet | Neumann | Robin | Generic | Other

fun BCType_val :: "BCType \<Rightarrow> nat" where
  "BCType_val Dirichlet = 0"
| "BCType_val Neumann = 1"
| "BCType_val Robin = 2"
| "BCType_val Generic = 3"
| "BCType_val Other = 4"

definition less_BCType :: "BCType \<Rightarrow> BCType \<Rightarrow> bool" where
  "less_BCType s t = (BCType_val s < BCType_val t)"

subsection \<open>The identifier \<open>BCId\<close>\<close>

text \<open>
  \<^verbatim>\<open>template <class BCName=std::string> struct BCId { BCType type; BCName name; };\<close>
  The name type is a type parameter; its sort says what the comparator needs of it:
  \<^verbatim>\<open>std::less<BCName>\<close> is the order \<open>(<)\<close> of the type. For \<^verbatim>\<open>std::string\<close> that is
  the lexicographic order on the bytes, which is the order of \<^typ>\<open>string\<close> here; for
  \<^verbatim>\<open>int\<close> it is the order of the integers.
\<close>

record 'n BCId =
  type :: BCType
  name :: 'n

definition make_BCId :: "BCType \<Rightarrow> 'n \<Rightarrow> 'n BCId" where
  "make_BCId typ n = \<lparr>type = typ, name = n\<rparr>"

text \<open>
  The functor \<^verbatim>\<open>std::less<BCId<BCName> >\<close> (lines 57 to 66):
  \<^verbatim>\<open>
  if(!std::less<BCType>(a.type,b.type) && !std::less<BCType>(b.type,a.type)) //same type!
    return std::less<BCName>(a.name,b.name);
  else
    return std::less<BCType>(a.type,b.type);
  \<close>
\<close>

definition less_BCId :: "('n::ord) BCId \<Rightarrow> 'n BCId \<Rightarrow> bool" where
  "less_BCId a b =
     (if \<not> less_BCType (type a) (type b) \<and> \<not> less_BCType (type b) (type a)
      then name a < name b
      else less_BCType (type a) (type b))"

text \<open>
  The functor \<^verbatim>\<open>std::equal_to<BCId<BCName> >\<close> (lines 68 to 74):
  \<^verbatim>\<open>return !std::less<BCId<BCName> >(a,b) && !std::less<BCId<BCName> >(b,a);\<close>
\<close>

definition equal_to_BCId :: "('n::ord) BCId \<Rightarrow> 'n BCId \<Rightarrow> bool" where
  "equal_to_BCId a b = (\<not> less_BCId a b \<and> \<not> less_BCId b a)"

subsection \<open>The evaluation function \<open>BcFun\<close>\<close>

text \<open>
  \<^verbatim>\<open>typedef std::function<double (double const t, double const * coord)> BcFun;\<close>
  A \<^verbatim>\<open>std::function\<close> object is either empty or holds a callable target; calling an
  empty one throws \<^verbatim>\<open>std::bad_function_call\<close>. So the type is an option, and a call
  returns an error or a value. The values of type \<^verbatim>\<open>double\<close> are only passed through
  by the class (no arithmetic is done on them), and stand here as reals; the coordinate
  pointer stands as the array it points to.
\<close>

datatype error = bad_function_call

type_synonym BcFun = "(real \<Rightarrow> real list \<Rightarrow> real) option"

definition call_BcFun :: "BcFun \<Rightarrow> real \<Rightarrow> real list \<Rightarrow> error + real" where
  "call_BcFun f t coord = (case f of None \<Rightarrow> Inl bad_function_call | Some g \<Rightarrow> Inr (g t coord))"

text \<open>
  \<^verbatim>\<open>//! the zero function\<close>
  \<^verbatim>\<open>BCFun zerofun;\<close>
  (line 81; the type is the one of the typedef above). The object is defined with no
  initialiser, so it is default-constructed: an empty \<^verbatim>\<open>std::function\<close>.
\<close>

definition zerofun :: BcFun where
  "zerofun = None"

subsection \<open>The class \<open>BCBase\<close>\<close>

text \<open>
  The data members \<^verbatim>\<open>_entities\<close>, \<^verbatim>\<open>_fun\<close> (both \<^verbatim>\<open>mutable\<close>) and \<^verbatim>\<open>_id\<close>. A member
  function that changes the object returns the changed object.
\<close>

record 'n BCBase =
  m_entities :: "int list"
  m_fun :: BcFun
  m_id :: "'n BCId"

text \<open>
  The constructors (lines 102 to 108), with all three arguments given:
  \<^verbatim>\<open>BCBase(BCType t, BCName n, BcFun fun) : _entities(), _fun(fun), _id(t,n) {}\<close>
  The one for string names and the one for integer names have the same initialiser list,
  so one polymorphic definition stands for both.
\<close>

definition BCBase :: "BCType \<Rightarrow> 'n \<Rightarrow> BcFun \<Rightarrow> 'n BCBase" where
  "BCBase t n fn = \<lparr>m_entities = [], m_fun = fn, m_id = \<lparr>type = t, name = n\<rparr>\<rparr>"

text \<open>
  The default arguments: \<^verbatim>\<open>BcFun fun = zerofun\<close> in both constructors, and
  \<^verbatim>\<open>BCType t=Dirichlet, BCName n = std::string("Homogeneous")\<close> in the first.
\<close>

definition BCBase2 :: "BCType \<Rightarrow> 'n \<Rightarrow> 'n BCBase" where
  "BCBase2 t n = BCBase t n zerofun"

definition BCBase1 :: "BCType \<Rightarrow> string BCBase" where
  "BCBase1 t = BCBase t ''Homogeneous'' zerofun"

definition BCBase0 :: "string BCBase" where
  "BCBase0 = BCBase Dirichlet ''Homogeneous'' zerofun"

definition get_Id :: "'n BCBase \<Rightarrow> 'n BCId" where
  "get_Id b = m_id b"

definition set_Id :: "'n BCBase \<Rightarrow> 'n BCId \<Rightarrow> 'n BCBase" where
  "set_Id b i = b\<lparr>m_id := i\<rparr>"

definition set_fun :: "'n BCBase \<Rightarrow> BcFun \<Rightarrow> 'n BCBase" where
  "set_fun b f = b\<lparr>m_fun := f\<rparr>"

definition BCBase_name :: "'n BCBase \<Rightarrow> 'n" where
  "BCBase_name b = name (m_id b)"

definition BCBase_type :: "'n BCBase \<Rightarrow> BCType" where
  "BCBase_type b = type (m_id b)"

text \<open>\<^verbatim>\<open>double apply(double const t, double const * coord) const { return _fun(t,coord); }\<close>\<close>

definition BCBase_apply :: "'n BCBase \<Rightarrow> real \<Rightarrow> real list \<Rightarrow> error + real" where
  "BCBase_apply b t coord = call_BcFun (m_fun b) t coord"

definition entities :: "'n BCBase \<Rightarrow> int list" where
  "entities b = m_entities b"

text \<open>
  Modelled from the spec: the body of \<^verbatim>\<open>BCBase::set_entities\<close>, which the header only
  declares (\<^verbatim>\<open>void set_entities(std::vector<int> const & e) const;\<close>). The specification
  says: "replace the entity index list wholesale".
\<close>

definition set_entities :: "'n BCBase \<Rightarrow> int list \<Rightarrow> 'n BCBase" where
  "set_entities b e = b\<lparr>m_entities := e\<rparr>"

text \<open>
  The ordering relations of the class (lines 143 to 146):
  \<^verbatim>\<open>operator < (l, r) { return l._id<r._id; }\<close> and
  \<^verbatim>\<open>operator == (l, r) { return l._id==r._id; }\<close>.
  The header gives identifiers one order and one equality, the two functors above
  ("Ordering relations for the IDs"), and these are what the comparisons of two
  identifiers stand for.
\<close>

definition BCBase_less :: "('n::ord) BCBase \<Rightarrow> 'n BCBase \<Rightarrow> bool" where
  "BCBase_less l r = less_BCId (m_id l) (m_id r)"

definition BCBase_eq :: "('n::ord) BCBase \<Rightarrow> 'n BCBase \<Rightarrow> bool" where
  "BCBase_eq l r = equal_to_BCId (m_id l) (m_id r)"

text \<open>
  The predicate \<^verbatim>\<open>isBCTypeEqual\<close> (lines 149 to 155): the constructor stores the type,
  \<^verbatim>\<open>bool operator() (const BCBase & b) { return b._id.type==_type; }\<close>
\<close>

definition isBCTypeEqual :: "BCType \<Rightarrow> 'n BCBase \<Rightarrow> bool" where
  "isBCTypeEqual t b = (type (m_id b) = t)"

definition isBCNameEqual :: "'n \<Rightarrow> 'n BCBase \<Rightarrow> bool" where
  "isBCNameEqual n b = (name (m_id b) = n)"

section \<open>Properties\<close>

subsection \<open>The order of the enumeration\<close>

lemma BCType_val_inj: "BCType_val s = BCType_val t \<Longrightarrow> s = t"
  by (cases s; cases t) simp_all

lemma less_BCType_irrefl: "\<not> less_BCType t t"
  by (simp add: less_BCType_def)

lemma less_BCType_total: "s \<noteq> t \<Longrightarrow> less_BCType s t \<or> less_BCType t s"
  unfolding less_BCType_def using BCType_val_inj [of s t] by linarith

lemma less_BCType_same_iff: "(\<not> less_BCType s t \<and> \<not> less_BCType t s) = (s = t)"
  using less_BCType_total [of s t] less_BCType_irrefl [of s] by blast

lemma less_BCId_same_type: "type a = type b \<Longrightarrow> less_BCId a b = (name a < name b)"
  by (simp add: less_BCId_def less_BCType_irrefl)

lemma less_BCId_other_type: "type a \<noteq> type b \<Longrightarrow> less_BCId a b = less_BCType (type a) (type b)"
  using less_BCType_same_iff [of "type a" "type b"] by (auto simp add: less_BCId_def)

subsection \<open>The comparator of identifiers\<close>

text \<open>
  Claim C2. The comparator orders two identifiers lexicographically in two levels. When
  the types differ, the result is the order of the enumeration on the two types, and it
  stays the same whatever names are put in the two identifiers: the names are not
  consulted. When the types are equal, the result is the order of the two names.
\<close>

theorem less_BCId_lexicographic:
  fixes a b :: "('n::ord) BCId"
  shows "(type a \<noteq> type b \<longrightarrow>
            less_BCId a b = (BCType_val (type a) < BCType_val (type b)) \<and>
            (\<forall>n1 n2. less_BCId (a\<lparr>name := n1\<rparr>) (b\<lparr>name := n2\<rparr>) = less_BCId a b)) \<and>
         (type a = type b \<longrightarrow> less_BCId a b = (name a < name b))"
proof -
  have diff: "less_BCId a' b' = less_BCType (type a') (type b')"
    if "type a' \<noteq> type b'" for a' b' :: "'n BCId"
    using that by (rule less_BCId_other_type)
  have "less_BCId (a\<lparr>name := n1\<rparr>) (b\<lparr>name := n2\<rparr>) = less_BCId a b"
    if "type a \<noteq> type b" for n1 n2
    using that diff [of a b] diff [of "a\<lparr>name := n1\<rparr>" "b\<lparr>name := n2\<rparr>"] by simp
  then show ?thesis
    using diff [of a b] less_BCId_same_type [of a b] by (simp add: less_BCType_def)
qed

theorem less_BCId_lexicographic_witness:
  "less_BCId \<lparr>type = Dirichlet, name = ''Wall''\<rparr> \<lparr>type = Neumann, name = ''Inlet''\<rparr>
   \<and> less_BCId \<lparr>type = Dirichlet, name = ''Inlet''\<rparr> \<lparr>type = Neumann, name = ''Wall''\<rparr>
   \<and> less_BCId \<lparr>type = Dirichlet, name = ''Floor''\<rparr> \<lparr>type = Dirichlet, name = ''Wall''\<rparr>
   \<and> \<not> less_BCId \<lparr>type = Dirichlet, name = ''Wall''\<rparr> \<lparr>type = Dirichlet, name = ''Floor''\<rparr>"
  using less_BCId_lexicographic [of "\<lparr>type = Dirichlet, name = ''Wall''\<rparr>"
          "\<lparr>type = Neumann, name = ''Inlet''\<rparr>"]
        less_BCId_lexicographic [of "\<lparr>type = Dirichlet, name = ''Floor''\<rparr>"
          "\<lparr>type = Dirichlet, name = ''Wall''\<rparr>"]
        less_BCId_lexicographic [of "\<lparr>type = Dirichlet, name = ''Wall''\<rparr>"
          "\<lparr>type = Dirichlet, name = ''Floor''\<rparr>"]
  by auto

text \<open>
  Claim C3. Two identifiers are equal for \<^verbatim>\<open>std::equal_to\<close> exactly when neither is less
  than the other for \<^verbatim>\<open>std::less\<close>: the equality is computed from the comparator alone.
  In terms of the fields, that is: the types are equal and neither name is less than the
  other.
\<close>

theorem equal_to_BCId_from_less:
  fixes a b :: "('n::ord) BCId"
  shows "equal_to_BCId a b = (\<not> less_BCId a b \<and> \<not> less_BCId b a) \<and>
         equal_to_BCId a b = (type a = type b \<and> \<not> name a < name b \<and> \<not> name b < name a)"
proof (cases "type a = type b")
  case True
  then show ?thesis
    using less_BCId_same_type [of a b] less_BCId_same_type [of b a]
    by (simp add: equal_to_BCId_def)
next
  case False
  then have "less_BCId a b \<or> less_BCId b a"
    using less_BCId_other_type [of a b] less_BCId_other_type [of b a]
      less_BCType_total [of "type a" "type b"] by auto
  with False show ?thesis
    by (auto simp add: equal_to_BCId_def)
qed

lemma less_BCId_iff:
  "less_BCId a b =
     (BCType_val (type a) < BCType_val (type b) \<or> (type a = type b \<and> name a < name b))"
proof (cases "type a = type b")
  case True
  then show ?thesis by (simp add: less_BCId_same_type)
next
  case False
  then show ?thesis by (simp add: less_BCId_other_type less_BCType_def)
qed

lemma BCId_eq_iff: "(a = b) = (type a = type b \<and> name a = name b)" for a b :: "'n BCId"
  by (cases a; cases b) simp

text \<open>
  Claim C4. On identifiers whose names are totally ordered, the comparator is a strict
  total order: no identifier is less than itself, the relation is transitive, two
  identifiers are never each less than the other, and of two different identifiers one is
  less than the other.
\<close>

theorem less_BCId_strict_total_order:
  fixes a b c :: "('n::linorder) BCId"
  shows "\<not> less_BCId a a \<and>
         (less_BCId a b \<longrightarrow> less_BCId b c \<longrightarrow> less_BCId a c) \<and>
         \<not> (less_BCId a b \<and> less_BCId b a) \<and>
         (a \<noteq> b \<longrightarrow> less_BCId a b \<or> less_BCId b a)"
proof -
  have irrefl: "\<not> less_BCId a a"
    by (simp add: less_BCId_iff)
  have trans: "less_BCId a c" if "less_BCId a b" "less_BCId b c"
    using that by (auto simp add: less_BCId_iff)
  have asym: "\<not> (less_BCId a b \<and> less_BCId b a)"
    by (auto simp add: less_BCId_iff)
  have total: "less_BCId a b \<or> less_BCId b a" if "a \<noteq> b"
  proof (cases "type a = type b")
    case True
    with that have "name a \<noteq> name b" by (simp add: BCId_eq_iff)
    with True show ?thesis by (auto simp add: less_BCId_iff)
  next
    case False
    then have "BCType_val (type a) \<noteq> BCType_val (type b)"
      using BCType_val_inj by blast
    then show ?thesis by (auto simp add: less_BCId_iff)
  qed
  from irrefl trans asym total show ?thesis by blast
qed

theorem less_BCId_strict_total_order_witness:
  "less_BCId \<lparr>type = Dirichlet, name = ''Floor''\<rparr> \<lparr>type = Dirichlet, name = ''Wall''\<rparr>
   \<and> less_BCId \<lparr>type = Dirichlet, name = ''Wall''\<rparr> \<lparr>type = Neumann, name = ''Inlet''\<rparr>
   \<and> less_BCId \<lparr>type = Dirichlet, name = ''Floor''\<rparr> \<lparr>type = Neumann, name = ''Inlet''\<rparr>
   \<and> \<lparr>type = Dirichlet, name = ''Floor''\<rparr> \<noteq> \<lparr>type = Dirichlet, name = ''Wall''\<rparr>
   \<and> \<not> less_BCId \<lparr>type = Dirichlet, name = ''Wall''\<rparr> \<lparr>type = Dirichlet, name = ''Floor''\<rparr>
   \<and> \<not> less_BCId \<lparr>type = Dirichlet, name = ''Floor''\<rparr> \<lparr>type = Dirichlet, name = ''Floor''\<rparr>"
  using less_BCId_strict_total_order [of "\<lparr>type = Dirichlet, name = ''Floor''\<rparr>"
          "\<lparr>type = Dirichlet, name = ''Wall''\<rparr>" "\<lparr>type = Neumann, name = ''Inlet''\<rparr>"]
  by (simp add: less_BCId_def less_BCType_def)

subsection \<open>The order and the equality of records\<close>

text \<open>
  Claim C5. The two comparisons of records are decided by the identifiers alone. The
  order of two records is the order of their identifiers and their equality is the
  equality of their identifiers: in terms of the fields, the type decides first and the
  name second, and two records are equal exactly when the types are equal and neither
  name is less than the other. So records with the same identifiers give the same
  results, and changing the entities and the function of either record changes neither
  result; and two records constructed with the same type and name are equal, and neither
  is less than the other, whatever their functions and entity lists are.
\<close>

theorem BCBase_compare_by_id:
  fixes l r l' r' :: "('n::preorder) BCBase" and n :: 'n
  shows "BCBase_less l r = less_BCId (get_Id l) (get_Id r) \<and>
         BCBase_eq l r = equal_to_BCId (get_Id l) (get_Id r) \<and>
         BCBase_less l r =
           (BCType_val (BCBase_type l) < BCType_val (BCBase_type r) \<or>
            (BCBase_type l = BCBase_type r \<and> BCBase_name l < BCBase_name r)) \<and>
         BCBase_eq l r =
           (BCBase_type l = BCBase_type r \<and> \<not> BCBase_name l < BCBase_name r \<and>
            \<not> BCBase_name r < BCBase_name l) \<and>
         (m_id l = m_id l' \<longrightarrow> m_id r = m_id r' \<longrightarrow>
            BCBase_less l r = BCBase_less l' r' \<and> BCBase_eq l r = BCBase_eq l' r') \<and>
         BCBase_less (l\<lparr>m_entities := e1, m_fun := f1\<rparr>) (r\<lparr>m_entities := e2, m_fun := f2\<rparr>)
           = BCBase_less l r \<and>
         BCBase_eq (l\<lparr>m_entities := e1, m_fun := f1\<rparr>) (r\<lparr>m_entities := e2, m_fun := f2\<rparr>)
           = BCBase_eq l r \<and>
         BCBase_eq ((BCBase k n f1)\<lparr>m_entities := e1\<rparr>) ((BCBase k n f2)\<lparr>m_entities := e2\<rparr>) \<and>
         \<not> BCBase_less ((BCBase k n f1)\<lparr>m_entities := e1\<rparr>) ((BCBase k n f2)\<lparr>m_entities := e2\<rparr>)"
proof -
  have by_id: "BCBase_less l r = less_BCId (get_Id l) (get_Id r)"
    "BCBase_eq l r = equal_to_BCId (get_Id l) (get_Id r)"
    by (simp_all add: BCBase_less_def BCBase_eq_def get_Id_def)
  have less_fields: "BCBase_less l r =
      (BCType_val (BCBase_type l) < BCType_val (BCBase_type r) \<or>
       (BCBase_type l = BCBase_type r \<and> BCBase_name l < BCBase_name r))"
    using less_BCId_iff [of "m_id l" "m_id r"]
    by (simp add: BCBase_less_def BCBase_type_def BCBase_name_def)
  have eq_fields: "BCBase_eq l r =
      (BCBase_type l = BCBase_type r \<and> \<not> BCBase_name l < BCBase_name r \<and>
       \<not> BCBase_name r < BCBase_name l)"
  proof (cases "type (m_id l) = type (m_id r)")
    case True
    then show ?thesis
      using less_BCId_same_type [of "m_id l" "m_id r"] less_BCId_same_type [of "m_id r" "m_id l"]
      by (simp add: BCBase_eq_def equal_to_BCId_def BCBase_type_def BCBase_name_def)
  next
    case False
    then have "less_BCId (m_id l) (m_id r) \<or> less_BCId (m_id r) (m_id l)"
      using less_BCId_other_type [of "m_id l" "m_id r"] less_BCId_other_type [of "m_id r" "m_id l"]
        less_BCType_total [of "type (m_id l)" "type (m_id r)"] by auto
    with False show ?thesis
      by (auto simp add: BCBase_eq_def equal_to_BCId_def BCBase_type_def)
  qed
  have same: "\<not> less_BCId \<lparr>type = k, name = n\<rparr> \<lparr>type = k, name = n\<rparr>"
    by (simp add: less_BCId_iff)
  have not_less: "\<not> BCBase_less ((BCBase k n f1)\<lparr>m_entities := e1\<rparr>) ((BCBase k n f2)\<lparr>m_entities := e2\<rparr>)"
    using same by (simp add: BCBase_less_def BCBase_def)
  have equal: "BCBase_eq ((BCBase k n f1)\<lparr>m_entities := e1\<rparr>) ((BCBase k n f2)\<lparr>m_entities := e2\<rparr>)"
    using same by (simp add: BCBase_eq_def equal_to_BCId_def BCBase_def)
  have congr: "m_id l = m_id l' \<longrightarrow> m_id r = m_id r' \<longrightarrow>
      BCBase_less l r = BCBase_less l' r' \<and> BCBase_eq l r = BCBase_eq l' r'"
    by (simp add: BCBase_less_def BCBase_eq_def)
  have payload:
    "BCBase_less (l\<lparr>m_entities := e1, m_fun := f1\<rparr>) (r\<lparr>m_entities := e2, m_fun := f2\<rparr>)
       = BCBase_less l r"
    "BCBase_eq (l\<lparr>m_entities := e1, m_fun := f1\<rparr>) (r\<lparr>m_entities := e2, m_fun := f2\<rparr>)
       = BCBase_eq l r"
    by (simp_all add: BCBase_less_def BCBase_eq_def)
  from by_id less_fields eq_fields congr payload equal not_less show ?thesis
    by blast
qed

theorem BCBase_compare_by_id_witness:
  "BCBase_less (BCBase Dirichlet ''Floor'' None) (BCBase Dirichlet ''Wall'' None)
     = BCBase_less ((BCBase Dirichlet ''Floor'' (Some (\<lambda>t c. t)))\<lparr>m_entities := [1, 2]\<rparr>)
         ((BCBase Dirichlet ''Wall'' (Some (\<lambda>t c. 1)))\<lparr>m_entities := [3]\<rparr>)
   \<and> BCBase_less (BCBase Dirichlet ''Floor'' None) (BCBase Dirichlet ''Wall'' None)
   \<and> \<not> BCBase_eq (BCBase Dirichlet ''Floor'' None) (BCBase Dirichlet ''Wall'' None)
   \<and> BCBase_less (BCBase Dirichlet ''Wall'' None) (BCBase Neumann ''Inlet'' None)
   \<and> \<not> BCBase_less (BCBase Neumann ''Inlet'' None) (BCBase Dirichlet ''Wall'' None)
   \<and> \<not> BCBase_eq (BCBase Dirichlet ''Wall'' None) (BCBase Neumann ''Inlet'' None)
   \<and> \<not> BCBase_eq (BCBase Dirichlet ''Wall'' None) (BCBase Neumann ''Wall'' None)
   \<and> BCBase_eq ((BCBase Robin ''Wall'' (Some (\<lambda>t c. t)))\<lparr>m_entities := [1, 2]\<rparr>)
         ((BCBase Robin ''Wall'' None)\<lparr>m_entities := [7]\<rparr>)"
  using BCBase_compare_by_id [where l = "BCBase Dirichlet ''Floor'' None"
          and l' = "(BCBase Dirichlet ''Floor'' (Some (\<lambda>t c. t)))\<lparr>m_entities := [1, 2]\<rparr>"
          and r = "BCBase Dirichlet ''Wall'' None"
          and r' = "(BCBase Dirichlet ''Wall'' (Some (\<lambda>t c. 1)))\<lparr>m_entities := [3]\<rparr>"
          and ?e1.0 = "[1, 2]" and ?f1.0 = "Some (\<lambda>t c. t)" and ?e2.0 = "[7]" and ?f2.0 = None
          and k = Robin and n = "''Wall''"]
        BCBase_compare_by_id [where l = "BCBase Dirichlet ''Wall'' None"
          and r = "BCBase Neumann ''Inlet'' None"]
        BCBase_compare_by_id [where l = "BCBase Neumann ''Inlet'' None"
          and r = "BCBase Dirichlet ''Wall'' None"]
        BCBase_compare_by_id [where l = "BCBase Dirichlet ''Wall'' None"
          and r = "BCBase Neumann ''Wall'' None"]
  by (simp add: BCBase_def BCBase_less_def BCBase_eq_def BCBase_type_def BCBase_name_def
      get_Id_def equal_to_BCId_def less_BCId_def less_BCType_def)

text \<open>
  Claim C6. \<^verbatim>\<open>set_fun\<close> changes the function and nothing else, \<^verbatim>\<open>set_entities\<close> changes
  the entity list and nothing else. Neither changes the identifier, so the result of
  comparing the record with any other record, on either side, is the same before and
  after.
\<close>

theorem set_fun_set_entities_frame:
  fixes b r :: "('n::ord) BCBase"
  shows "get_Id (set_fun b f) = get_Id b \<and> entities (set_fun b f) = entities b \<and>
         m_fun (set_fun b f) = f \<and>
         get_Id (set_entities b e) = get_Id b \<and> m_fun (set_entities b e) = m_fun b \<and>
         entities (set_entities b e) = e \<and>
         BCBase_less (set_fun b f) r = BCBase_less b r \<and>
         BCBase_less r (set_fun b f) = BCBase_less r b \<and>
         BCBase_eq (set_fun b f) r = BCBase_eq b r \<and>
         BCBase_eq r (set_fun b f) = BCBase_eq r b \<and>
         BCBase_less (set_entities b e) r = BCBase_less b r \<and>
         BCBase_less r (set_entities b e) = BCBase_less r b \<and>
         BCBase_eq (set_entities b e) r = BCBase_eq b r \<and>
         BCBase_eq r (set_entities b e) = BCBase_eq r b"
  by (simp add: get_Id_def entities_def set_fun_def set_entities_def BCBase_less_def BCBase_eq_def)

subsection \<open>Construction and accessors\<close>

text \<open>
  Claim C8. A record constructed from a type, a name and a function has an empty entity
  list; \<^verbatim>\<open>name()\<close> and \<^verbatim>\<open>type()\<close> return the name and the type given, and \<^verbatim>\<open>get_Id()\<close> the
  identifier made of them.
\<close>

theorem BCBase_constructed:
  "entities (BCBase k n f) = [] \<and> BCBase_name (BCBase k n f) = n \<and>
   BCBase_type (BCBase k n f) = k \<and> get_Id (BCBase k n f) = make_BCId k n \<and>
   type (get_Id (BCBase k n f)) = k \<and> name (get_Id (BCBase k n f)) = n"
  by (simp add: BCBase_def entities_def BCBase_name_def BCBase_type_def get_Id_def make_BCId_def)

text \<open>
  Claim C10 says that a record constructed with no argument has the type \<^verbatim>\<open>Dirichlet\<close>,
  the name \<^verbatim>\<open>"Homogeneous"\<close> and the default zero evaluation function. The type and the
  name are as the claim says. The function is the default argument \<^verbatim>\<open>zerofun\<close>, which
  the header defines without a target: the record holds no function at all, in
  particular not one that returns 0.0 everywhere, and applying it raises
  \<^verbatim>\<open>std::bad_function_call\<close>.
\<close>

theorem BCBase_default_function_empty:
  "BCBase_type BCBase0 = Dirichlet \<and> BCBase_name BCBase0 = ''Homogeneous'' \<and>
   entities BCBase0 = [] \<and>
   m_fun BCBase0 = zerofun \<and> m_fun BCBase0 = None \<and>
   m_fun BCBase0 \<noteq> Some (\<lambda>t coord. 0) \<and>
   BCBase_apply BCBase0 t coord = Inl bad_function_call"
  by (simp add: BCBase0_def BCBase_def BCBase_type_def BCBase_name_def entities_def zerofun_def
      BCBase_apply_def call_BcFun_def)

subsection \<open>Applying the function\<close>

text \<open>
  Claim C1 says that \<^verbatim>\<open>apply\<close> on a record constructed without a function returns 0.0
  and never raises an error. The function of such a record is \<^verbatim>\<open>zerofun\<close>, which the
  header defines without a target, so the call raises \<^verbatim>\<open>std::bad_function_call\<close> at
  every time and coordinate, for each of the three ways of leaving the function out. A
  record whose function has a target returns the value of the target.
\<close>

theorem BCBase_apply_default_raises:
  "BCBase_apply (BCBase2 k n) t coord = Inl bad_function_call \<and>
   BCBase_apply (BCBase1 k) t coord = Inl bad_function_call \<and>
   BCBase_apply BCBase0 t coord = Inl bad_function_call \<and>
   BCBase_apply BCBase0 t coord \<noteq> Inr 0 \<and>
   BCBase_apply (BCBase k n (Some g)) t coord = Inr (g t coord)"
  by (simp add: BCBase_apply_def call_BcFun_def BCBase0_def BCBase1_def BCBase2_def BCBase_def
      zerofun_def)

subsection \<open>The predicate on the type\<close>

text \<open>
  Claim C9. \<^verbatim>\<open>isBCTypeEqual(k)\<close> is true of a record exactly when the type of the record
  is \<open>k\<close>; it returns a truth value only, so the record is as it was. Over a sequence of
  records it selects the records of type \<open>k\<close>: the selected list has exactly those
  members, and it is a subsequence of the given list, so they keep their relative order.
\<close>

theorem isBCTypeEqual_selects:
  fixes b :: "'n BCBase" and bs :: "'n BCBase list"
  shows "isBCTypeEqual k b = (BCBase_type b = k) \<and>
         map (isBCTypeEqual k) bs = map (\<lambda>b. BCBase_type b = k) bs \<and>
         filter (isBCTypeEqual k) bs = filter (\<lambda>b. BCBase_type b = k) bs \<and>
         set (filter (isBCTypeEqual k) bs) = {b. b \<in> set bs \<and> BCBase_type b = k} \<and>
         subseq (filter (isBCTypeEqual k) bs) bs"
proof -
  have pred: "isBCTypeEqual k = (\<lambda>x::'n BCBase. BCBase_type x = k)"
    by (rule ext) (simp add: isBCTypeEqual_def BCBase_type_def)
  show ?thesis by (simp add: pred)
qed

theorem isBCTypeEqual_selects_witness:
  "filter (isBCTypeEqual Dirichlet)
     [BCBase Dirichlet ''Wall'' None, BCBase Neumann ''Inlet'' None, BCBase Dirichlet ''Floor'' None]
   = [BCBase Dirichlet ''Wall'' None, BCBase Dirichlet ''Floor'' None]"
  using isBCTypeEqual_selects [of Dirichlet "BCBase Dirichlet ''Wall'' None"
          "[BCBase Dirichlet ''Wall'' None, BCBase Neumann ''Inlet'' None,
            BCBase Dirichlet ''Floor'' None]"]
  by (simp add: BCBase_type_def BCBase_def)

end
